theory Spec2Isabelle
  imports Main
begin

section \<open>The schedule entry formatter of \<^verbatim>\<open>scripts/extract-schedule-data.py\<close>\<close>

text \<open>
  The script consists of one function, \<^verbatim>\<open>format_schedule_entry\<close>, whose body returns a
  single f-string, and of a \<^verbatim>\<open>__main__\<close> block of five \<^verbatim>\<open>print\<close> calls. The function is
  modelled by evaluating the f-string of the source, character for character, in the
  namespace made of its eight parameters.
\<close>

subsection \<open>Python values and their default formatting\<close>

text \<open>
  The function is untyped. The values considered are strings, integers (unbounded),
  booleans and \<^verbatim>\<open>None\<close>; floating-point numbers and objects with a formatting method
  of their own are left out. A string is a list of characters, which the formatter
  copies without looking at them.
\<close>

datatype pyval = PyStr string | PyInt int | PyBool bool | PyNone

datatype error = NameError string | SyntaxError | ValueError

text \<open>The decimal digits of a natural number, most significant first, as \<^verbatim>\<open>str\<close> gives them.\<close>

fun str_nat :: "nat \<Rightarrow> string" where
  "str_nat n =
     (if n < 10 then [''0123456789'' ! n]
      else str_nat (n div 10) @ [''0123456789'' ! (n mod 10)])"

declare str_nat.simps [simp del]

definition str_int :: "int \<Rightarrow> string" where
  "str_int i = (if i < 0 then CHR ''-'' # str_nat (nat (- i)) else str_nat (nat i))"

text \<open>
  A replacement field \<^verbatim>\<open>{x}\<close> with no conversion and no format specification inserts
  \<^verbatim>\<open>format(x, '')\<close>: the string itself for a string, the decimal numeral for an integer,
  the name of the constant for a boolean and for \<^verbatim>\<open>None\<close>. \<open>py_format\<close> is the text that
  the conversion produces; when the interpreter refuses to convert an integer is the
  matter of \<open>py_format_limited\<close> below.
\<close>

fun py_format :: "pyval \<Rightarrow> string" where
  "py_format (PyStr s) = s"
| "py_format (PyInt i) = str_int i"
| "py_format (PyBool b) = (if b then ''True'' else ''False'')"
| "py_format PyNone = ''None''"

subsection \<open>Evaluation of an f-string\<close>

text \<open>
  The text of an f-string is scanned from left to right: \<^verbatim>\<open>{{\<close> and \<^verbatim>\<open>}}\<close> stand for one
  brace, \<^verbatim>\<open>{name}\<close> is a replacement field, every other character stands for itself. A
  lone \<^verbatim>\<open>}\<close>, an empty field and an unclosed field are syntax errors. Only fields that
  hold a plain name are covered, the only kind the source has.
\<close>

datatype segment = Chr char | Field string

datatype mode = Text | Opened | InField string | Closed

fun scan :: "mode \<Rightarrow> segment list \<Rightarrow> string \<Rightarrow> error + segment list" where
  "scan Text acc [] = Inr (rev acc)"
| "scan Opened acc [] = Inl SyntaxError"
| "scan (InField n) acc [] = Inl SyntaxError"
| "scan Closed acc [] = Inl SyntaxError"
| "scan Text acc (c # cs) =
     (if c = CHR ''{'' then scan Opened acc cs
      else if c = CHR ''}'' then scan Closed acc cs
      else scan Text (Chr c # acc) cs)"
| "scan Opened acc (c # cs) =
     (if c = CHR ''{'' then scan Text (Chr c # acc) cs
      else if c = CHR ''}'' then Inl SyntaxError
      else scan (InField [c]) acc cs)"
| "scan (InField n) acc (c # cs) =
     (if c = CHR ''}'' then scan Text (Field (rev n) # acc) cs
      else scan (InField (c # n)) acc cs)"
| "scan Closed acc (c # cs) =
     (if c = CHR ''}'' then scan Text (Chr c # acc) cs else Inl SyntaxError)"

definition parse_fstring :: "string \<Rightarrow> error + segment list" where
  "parse_fstring src = scan Text [] src"

type_synonym namespace = "string \<rightharpoonup> pyval"

text \<open>
  A name is looked up among the locals of the running function first, then in the
  namespace of the module (globals and builtins); a name bound in neither raises
  \<^verbatim>\<open>NameError\<close>.
\<close>

definition load_name :: "namespace \<Rightarrow> namespace \<Rightarrow> string \<Rightarrow> error + pyval" where
  "load_name l g n =
     (case l n of
        Some v \<Rightarrow> Inr v
      | None \<Rightarrow> (case g n of Some v \<Rightarrow> Inr v | None \<Rightarrow> Inl (NameError n)))"

text \<open>The fields are evaluated from left to right; the first failure ends the evaluation.\<close>

fun render :: "namespace \<Rightarrow> namespace \<Rightarrow> segment list \<Rightarrow> error + string" where
  "render l g [] = Inr []"
| "render l g (Chr c # segs) =
     (case render l g segs of Inl e \<Rightarrow> Inl e | Inr s \<Rightarrow> Inr (c # s))"
| "render l g (Field n # segs) =
     (case load_name l g n of
        Inl e \<Rightarrow> Inl e
      | Inr v \<Rightarrow> (case render l g segs of Inl e \<Rightarrow> Inl e | Inr s \<Rightarrow> Inr (py_format v @ s)))"

definition fstring :: "namespace \<Rightarrow> namespace \<Rightarrow> string \<Rightarrow> error + string" where
  "fstring l g src =
     (case parse_fstring src of Inl e \<Rightarrow> Inl e | Inr segs \<Rightarrow> render l g segs)"

subsection \<open>The formatter\<close>

text \<open>
  \<^verbatim>\<open>def format_schedule_entry(zone_code, week, batch, date, time_slot, equipment,
  or_number, deadline)\<close>: the locals are the eight parameters, \<open>g\<close> is the namespace of
  the module at the time of the call, and the string is the f-string of the
  \<^verbatim>\<open>return\<close> statement.
\<close>

definition format_schedule_entry ::
  "namespace \<Rightarrow> pyval \<Rightarrow> pyval \<Rightarrow> pyval \<Rightarrow> pyval \<Rightarrow> pyval \<Rightarrow> pyval \<Rightarrow> pyval \<Rightarrow> pyval
     \<Rightarrow> error + string" where
  "format_schedule_entry g zone_code week batch date time_slot equipment or_number deadline =
     fstring
       [''zone_code'' \<mapsto> zone_code, ''week'' \<mapsto> week, ''batch'' \<mapsto> batch, ''date'' \<mapsto> date,
        ''time_slot'' \<mapsto> time_slot, ''equipment'' \<mapsto> equipment, ''or_number'' \<mapsto> or_number,
        ''deadline'' \<mapsto> deadline]
       g
       ''    {{ zoneCode: '{zone_code}', week: {week}, batch: '{batch}', date: '{date}', timeSlot: '{time_slot}', equipmentNumber: '{equipment}', orNumber: '{or_number}', deadline: '{deadline}' }},''"

subsection \<open>The main block\<close>

text \<open>
  Standard output is the text written so far; \<^verbatim>\<open>print(s)\<close> appends \<open>s\<close> and a line feed.
  A run yields the text written and the exception that ended it, if any.
\<close>

definition py_print :: "string \<Rightarrow> string \<Rightarrow> string" where
  "py_print s out = out @ s @ [CHR 0x0A]"

definition main_block :: "namespace \<Rightarrow> string \<Rightarrow> string \<times> error option" where
  "main_block g out0 =
     (let out1 = py_print ''Schedule Data Formatter'' out0;
          out2 = py_print (replicate 50 CHR ''='') out1;
          out3 = py_print (CHR 0x0A # ''Use this script to format schedule entries.'') out2;
          out4 = py_print ''Example:'' out3
      in case format_schedule_entry g (PyStr ''MTR-01'') (PyInt 45) (PyStr ''A'')
                (PyStr ''2024-11-02'') (PyStr ''SLOT_2300'') (PyStr ''HOK-E25'')
                (PyStr ''5000355448'') (PyStr ''16-Nov'') of
           Inl e \<Rightarrow> (out4, Some e)
         | Inr s \<Rightarrow> (py_print s out4, None))"

text \<open>\<^verbatim>\<open>if __name__ == '__main__':\<close> guards the block; the module has no other statement with an effect.\<close>

definition script :: "namespace \<Rightarrow> string \<Rightarrow> string \<times> error option" where
  "script g out =
     (case load_name Map.empty g ''__name__'' of
        Inl e \<Rightarrow> (out, Some e)
      | Inr v \<Rightarrow> if v = PyStr ''__main__'' then main_block g out else (out, None))"

text \<open>Running the file as a program: the interpreter binds \<^verbatim>\<open>__name__\<close> to \<^verbatim>\<open>'__main__'\<close>.\<close>

definition run_program :: "string \<times> error option" where
  "run_program = script [''__name__'' \<mapsto> PyStr ''__main__''] []"

subsection \<open>The formatter under the conversion limit of the interpreter\<close>

text \<open>
  CPython bounds the conversion of an integer to a decimal string: when the limit
  \<open>lim\<close> (\<^verbatim>\<open>sys.get_int_max_str_digits()\<close>, 4300 unless it is configured, 0 when it is
  switched off or when the interpreter has none) is positive and the integer has more
  than \<open>lim\<close> digits, the sign not counted, the conversion raises \<^verbatim>\<open>ValueError\<close>.
  Strings, booleans and \<^verbatim>\<open>None\<close> are not concerned.
\<close>

definition digits_exceed :: "nat \<Rightarrow> int \<Rightarrow> bool" where
  "digits_exceed lim i = (0 < lim \<and> lim < length (str_nat (nat \<bar>i\<bar>)))"

fun py_format_limited :: "nat \<Rightarrow> pyval \<Rightarrow> error + string" where
  "py_format_limited lim (PyStr s) = Inr s"
| "py_format_limited lim (PyInt i) =
     (if digits_exceed lim i then Inl ValueError else Inr (str_int i))"
| "py_format_limited lim (PyBool b) = Inr (if b then ''True'' else ''False'')"
| "py_format_limited lim PyNone = Inr ''None''"

text \<open>
  The evaluation of the f-string with this conversion: the same scan, the same lookup
  of names and the same order; a field whose conversion raises ends the evaluation.
\<close>

fun render_limited ::
  "nat \<Rightarrow> namespace \<Rightarrow> namespace \<Rightarrow> segment list \<Rightarrow> error + string" where
  "render_limited lim l g [] = Inr []"
| "render_limited lim l g (Chr c # segs) =
     (case render_limited lim l g segs of Inl e \<Rightarrow> Inl e | Inr s \<Rightarrow> Inr (c # s))"
| "render_limited lim l g (Field n # segs) =
     (case load_name l g n of
        Inl e \<Rightarrow> Inl e
      | Inr v \<Rightarrow>
          (case py_format_limited lim v of
             Inl e \<Rightarrow> Inl e
           | Inr r \<Rightarrow>
               (case render_limited lim l g segs of Inl e \<Rightarrow> Inl e | Inr s \<Rightarrow> Inr (r @ s))))"

definition fstring_limited ::
  "nat \<Rightarrow> namespace \<Rightarrow> namespace \<Rightarrow> string \<Rightarrow> error + string" where
  "fstring_limited lim l g src =
     (case parse_fstring src of Inl e \<Rightarrow> Inl e | Inr segs \<Rightarrow> render_limited lim l g segs)"

definition format_schedule_entry_limited ::
  "nat \<Rightarrow> namespace \<Rightarrow> pyval \<Rightarrow> pyval \<Rightarrow> pyval \<Rightarrow> pyval \<Rightarrow> pyval \<Rightarrow> pyval \<Rightarrow> pyval
     \<Rightarrow> pyval \<Rightarrow> error + string" where
  "format_schedule_entry_limited lim g zone_code week batch date time_slot equipment or_number
       deadline =
     fstring_limited lim
       [''zone_code'' \<mapsto> zone_code, ''week'' \<mapsto> week, ''batch'' \<mapsto> batch, ''date'' \<mapsto> date,
        ''time_slot'' \<mapsto> time_slot, ''equipment'' \<mapsto> equipment, ''or_number'' \<mapsto> or_number,
        ''deadline'' \<mapsto> deadline]
       g
       ''    {{ zoneCode: '{zone_code}', week: {week}, batch: '{batch}', date: '{date}', timeSlot: '{time_slot}', equipmentNumber: '{equipment}', orNumber: '{or_number}', deadline: '{deadline}' }},''"

section \<open>Notions used to state the properties\<close>

text \<open>A text between two single quotes, as the object literal has its string values.\<close>

definition single_quoted :: "string \<Rightarrow> string" where
  "single_quoted s = [CHR 0x27] @ s @ [CHR 0x27]"





text \<open>The text of several lines, each ended by a line feed.\<close>

definition lines_text :: "string list \<Rightarrow> string" where
  "lines_text ls = concat (map (\<lambda>l. l @ [CHR 0x0A]) ls)"





section \<open>Properties\<close>

subsection \<open>The rendered text in closed form\<close>

lemma format_schedule_entry_closed:
  "format_schedule_entry g z w b d t e n dl =
     Inr (''    { zoneCode: '' @ single_quoted (py_format z)
          @ '', week: '' @ py_format w
          @ '', batch: '' @ single_quoted (py_format b)
          @ '', date: '' @ single_quoted (py_format d)
          @ '', timeSlot: '' @ single_quoted (py_format t)
          @ '', equipmentNumber: '' @ single_quoted (py_format e)
          @ '', orNumber: '' @ single_quoted (py_format n)
          @ '', deadline: '' @ single_quoted (py_format dl) @ '' },'')"
  by (simp add: format_schedule_entry_def fstring_def parse_fstring_def load_name_def
      single_quoted_def)

subsection \<open>Decimal numerals\<close>










subsection \<open>The example of the source\<close>

text \<open>
  C1. With the arguments of the example, \<^verbatim>\<open>'MTR-01', 45, 'A', '2024-11-02', 'SLOT_2300',
  'HOK-E25', '5000355448', '16-Nov'\<close>, the formatter returns exactly the line of the
  specification: four leading spaces, the eight pairs, and the trailing comma.
\<close>

theorem format_schedule_entry_example:
  "format_schedule_entry g (PyStr ''MTR-01'') (PyInt 45) (PyStr ''A'') (PyStr ''2024-11-02'')
     (PyStr ''SLOT_2300'') (PyStr ''HOK-E25'') (PyStr ''5000355448'') (PyStr ''16-Nov'') =
   Inr ''    { zoneCode: 'MTR-01', week: 45, batch: 'A', date: '2024-11-02', timeSlot: 'SLOT_2300', equipmentNumber: 'HOK-E25', orNumber: '5000355448', deadline: '16-Nov' },''"
  by (simp add: format_schedule_entry_closed single_quoted_def str_int_def str_nat.simps)

subsection \<open>The shape of the line\<close>




subsection \<open>Totality, and where the interpreter ends it\<close>



lemma py_format_limited_off: "py_format_limited 0 v = Inr (py_format v)"
  by (cases v) (simp_all add: digits_exceed_def)


lemma format_schedule_entry_limited_off:
  "format_schedule_entry_limited 0 g z w b d t e n dl = format_schedule_entry g z w b d t e n dl"
  by (simp add: format_schedule_entry_limited_def fstring_limited_def parse_fstring_def
      load_name_def py_format_limited_off format_schedule_entry_closed single_quoted_def)




subsection \<open>Determinism\<close>

text \<open>
  C8. The formatter is deterministic: two calls with the same eight arguments return the
  same result, also when the namespace of the module differs between the calls.
\<close>

theorem format_schedule_entry_deterministic:
  "format_schedule_entry g z w b d t e n dl = format_schedule_entry g' z w b d t e n dl"
  by (simp add: format_schedule_entry_closed)

subsection \<open>Values pass through verbatim\<close>


subsection \<open>Boundary values\<close>




subsection \<open>The output does not determine the fields\<close>

text \<open>
  C9. The formatter is not injective: a batch that holds a quote, a separator and the
  text of the next key gives the same line as the entry whose date holds them, so two
  distinct tuples of arguments have the same output.
\<close>

theorem format_schedule_entry_not_injective:
  "(PyStr ''b', date: 'c'', PyStr ''d'') \<noteq> (PyStr ''b'', PyStr ''c', date: 'd'')
   \<and> format_schedule_entry g (PyStr ''a'') (PyInt 1) (PyStr ''b', date: 'c'') (PyStr ''d'')
       (PyStr ''t'') (PyStr ''e'') (PyStr ''n'') (PyStr ''dl'')
     = format_schedule_entry g (PyStr ''a'') (PyInt 1) (PyStr ''b'') (PyStr ''c', date: 'd'')
       (PyStr ''t'') (PyStr ''e'') (PyStr ''n'') (PyStr ''dl'')
   \<and> \<not> inj (\<lambda>(z, w, b, d, t, e, n, dl). format_schedule_entry g z w b d t e n dl)"
proof -
  let ?x = "(PyStr ''a'', PyInt 1, PyStr ''b', date: 'c'', PyStr ''d'',
             PyStr ''t'', PyStr ''e'', PyStr ''n'', PyStr ''dl'')"
  let ?y = "(PyStr ''a'', PyInt 1, PyStr ''b'', PyStr ''c', date: 'd'',
             PyStr ''t'', PyStr ''e'', PyStr ''n'', PyStr ''dl'')"
  let ?f = "\<lambda>(z, w, b, d, t, e, n, dl). format_schedule_entry g z w b d t e n dl"
  have neq: "?x \<noteq> ?y" by simp
  have eq: "?f ?x = ?f ?y"
    by (simp add: format_schedule_entry_closed single_quoted_def)
  have "\<not> inj ?f"
  proof
    assume "inj ?f"
    then have "?x = ?y" using eq by (rule injD)
    with neq show False by contradiction
  qed
  with eq show ?thesis by simp
qed

subsection \<open>Length of the output\<close>


subsection \<open>Running the script\<close>

text \<open>
  C3. Run as a program, the script prints, in order, the banner line, a
  line of 50 \<^verbatim>\<open>=\<close>, an empty line, the line \<^verbatim>\<open>Use this script to format schedule
  entries.\<close>, the label \<^verbatim>\<open>Example:\<close> and the formatted example entry, and nothing
  else; it ends without an exception.
\<close>

theorem script_output:
  "g ''__name__'' = Some (PyStr ''__main__'') \<Longrightarrow>
   script g out =
     (out @ lines_text
        [''Schedule Data Formatter'',
         replicate 50 CHR ''='',
         [],
         ''Use this script to format schedule entries.'',
         ''Example:'',
         ''    { zoneCode: 'MTR-01', week: 45, batch: 'A', date: '2024-11-02', timeSlot: 'SLOT_2300', equipmentNumber: 'HOK-E25', orNumber: '5000355448', deadline: '16-Nov' },''],
      None)"
  by (simp add: script_def load_name_def main_block_def py_print_def lines_text_def
      format_schedule_entry_closed single_quoted_def str_int_def str_nat.simps)

text \<open>The namespace of a program run binds \<^verbatim>\<open>__name__\<close> as the hypothesis asks.\<close>

theorem script_output_witness:
  "run_program =
     (lines_text
        [''Schedule Data Formatter'',
         replicate 50 CHR ''='',
         [],
         ''Use this script to format schedule entries.'',
         ''Example:'',
         ''    { zoneCode: 'MTR-01', week: 45, batch: 'A', date: '2024-11-02', timeSlot: 'SLOT_2300', equipmentNumber: 'HOK-E25', orNumber: '5000355448', deadline: '16-Nov' },''],
      None)"
  using script_output [of "[''__name__'' \<mapsto> PyStr ''__main__'']" "[]"]
  by (simp add: run_program_def)

text \<open>
  The output is not the banner, the separator, the empty line, the label and the
  example alone: the third \<^verbatim>\<open>print\<close> writes a line of usage text after the empty
  line.
\<close>

theorem run_program_counterexample:
  "run_program \<noteq>
     (lines_text
        [''Schedule Data Formatter'',
         replicate 50 CHR ''='',
         [],
         ''Example:'',
         ''    { zoneCode: 'MTR-01', week: 45, batch: 'A', date: '2024-11-02', timeSlot: 'SLOT_2300', equipmentNumber: 'HOK-E25', orNumber: '5000355448', deadline: '16-Nov' },''],
      None)"
  by (simp add: run_program_def script_def load_name_def main_block_def py_print_def
      lines_text_def format_schedule_entry_closed single_quoted_def str_int_def str_nat.simps)

end
